theory Spec2Isabelle
  imports Complex_Main "HOL-Library.Sublist"
begin

section \<open>Data model of \<^verbatim>\<open>bot.py\<close>\<close>

text \<open>
  A Python \<^verbatim>\<open>str\<close> is a sequence of Unicode code points. The prompts of the program are
  Cyrillic, and \<^verbatim>\<open>str.strip()\<close> removes Unicode white space, so a string is modelled as
  the list of its code points and not as a list of bytes.
\<close>

type_synonym pystr = "nat list"

definition ascii :: "string \<Rightarrow> pystr" where
  "ascii s = map of_char s"

text \<open>
  \<^verbatim>\<open>str.isspace\<close> on one code point: the 29 code points that CPython classifies as
  white space (U+0009..U+000D, U+001C..U+0020, U+0085, U+00A0, U+1680, U+2000..U+200A,
  U+2028, U+2029, U+202F, U+205F, U+3000).
\<close>

definition is_space :: "nat \<Rightarrow> bool" where
  "is_space c \<longleftrightarrow>
     (9 \<le> c \<and> c \<le> 13) \<or> (28 \<le> c \<and> c \<le> 32) \<or> c = 133 \<or> c = 160 \<or> c = 5760 \<or>
     (8192 \<le> c \<and> c \<le> 8202) \<or> c = 8232 \<or> c = 8233 \<or> c = 8239 \<or> c = 8287 \<or> c = 12288"

text \<open>\<^verbatim>\<open>s.strip()\<close>: white space is dropped at the front, then at the back.\<close>

definition strip :: "pystr \<Rightarrow> pystr" where
  "strip s = rev (dropWhile is_space (rev (dropWhile is_space s)))"

text \<open>
  \<^verbatim>\<open>xs[-n:]\<close>: the last \<open>n\<close> elements, the whole list when it is shorter; and the whole
  list for \<open>n = 0\<close>, since \<^verbatim>\<open>-0\<close> is \<^verbatim>\<open>0\<close>.
\<close>

definition last_n :: "nat \<Rightarrow> 'a list \<Rightarrow> 'a list" where
  "last_n n xs = (if n = 0 then xs else drop (length xs - n) xs)"

text \<open>\<^verbatim>\<open>d.get(k, default)\<close> on a dictionary.\<close>

definition get_default :: "('k \<rightharpoonup> 'v) \<Rightarrow> 'k \<Rightarrow> 'v \<Rightarrow> 'v" where
  "get_default d k dflt = (case d k of None \<Rightarrow> dflt | Some v \<Rightarrow> v)"

text \<open>
  The exceptions that the handlers can meet. \<open>OtherException\<close> stands for any other
  subclass of \<^verbatim>\<open>Exception\<close> that a collaborator raises (an API or transport error), and
  \<open>NonException\<close> for a \<^verbatim>\<open>BaseException\<close> outside \<^verbatim>\<open>Exception\<close> (a cancellation, a
  keyboard interrupt), which \<^verbatim>\<open>except Exception\<close> does not catch.
\<close>

datatype exn =
    RuntimeError string
  | IndexError
  | AttributeError
  | KeyError
  | OtherException pystr
  | NonException pystr

fun is_Exception :: "exn \<Rightarrow> bool" where
  "is_Exception (NonException _) = False"
| "is_Exception _ = True"

text \<open>One entry of the \<^verbatim>\<open>messages\<close> list: the dictionary with keys \<^verbatim>\<open>role\<close> and \<^verbatim>\<open>content\<close>.\<close>

record message =
  role :: pystr
  content :: pystr

text \<open>
  The keyword arguments of \<^verbatim>\<open>client.chat.completions.create\<close>. The temperature is the
  decimal literal of the source.
\<close>

record request =
  model :: pystr
  messages :: "message list"
  temperature :: rat

text \<open>
  What the handlers read of a completion: \<^verbatim>\<open>resp.choices[i].message.content\<close>, which may
  be \<^verbatim>\<open>None\<close>, for each choice.
\<close>

type_synonym response = "pystr option list"

text \<open>
  The collaborators of one handler run: the model identifier read at start-up, the
  completion engine (it returns a response or raises) and the chat transport's
  \<^verbatim>\<open>reply_text\<close> (it delivers, or raises the exception given).
\<close>

record services =
  MODEL :: pystr
  create :: "request \<Rightarrow> exn + response"
  reply_text :: "pystr \<Rightarrow> exn option"

text \<open>The part of a \<^verbatim>\<open>telegram.Update\<close> that the handlers read.\<close>

record update =
  effective_user_id :: int
  message_text :: "pystr option"

text \<open>
  The two module-level dictionaries, and three traces of what the program did: the
  requests made to the completion engine, the replies handed to the transport, and the
  exceptions logged as warnings.
\<close>

record store =
  USER_SUMMARY :: "int \<rightharpoonup> pystr"
  USER_TURNS :: "int \<rightharpoonup> (pystr \<times> pystr) list"
  requests :: "request list"
  delivered :: "(int \<times> pystr) list"
  warnings :: "exn list"

definition empty_store :: store where
  "empty_store =
     \<lparr>USER_SUMMARY = Map.empty, USER_TURNS = Map.empty, requests = [], delivered = [],
      warnings = []\<rparr>"

definition MAX_TURNS :: nat where
  "MAX_TURNS = 8"

section \<open>String constants\<close>

text \<open>The code points of \<^verbatim>\<open>SYSTEM_PROMPT\<close> (557 of them, the final line feed included).\<close>

definition SYSTEM_PROMPT :: pystr where
  "SYSTEM_PROMPT =
     [1058, 1099, 32, 65, 73, 45, 77, 73, 82, 82, 79, 82, 46, 10, 1058, 1074, 1086, 1103, 32,
      1092, 1091, 1085, 1082, 1094, 1080, 1103, 32, 8212, 32, 1085, 1077, 32, 1091, 1090, 1077,
      1096, 1072, 1090, 1100, 32, 1080, 32, 1085, 1077, 32, 1076, 1072, 1074, 1072, 1090, 1100,
      32, 1089, 1086, 1074, 1077, 1090, 1086, 1074, 44, 32, 1072, 32, 1086, 1090, 1088, 1072,
      1078, 1072, 1090, 1100, 32, 1089, 1090, 1088, 1091, 1082, 1090, 1091, 1088, 1091, 32, 1084,
      1099, 1096, 1083, 1077, 1085, 1080, 1103, 46, 10, 10, 1055, 1088, 1072, 1074, 1080, 1083,
      1072, 58, 10, 45, 32, 1053, 1077, 32, 1076, 1072, 1074, 1072, 1081, 32, 1087, 1089, 1080,
      1093, 1086, 1083, 1086, 1075, 1080, 1095, 1077, 1089, 1082, 1086, 1081, 32, 1087, 1086,
      1087, 45, 1090, 1077, 1088, 1084, 1080, 1085, 1086, 1083, 1086, 1075, 1080, 1080, 32, 1080,
      32, 34, 1091, 1089, 1087, 1086, 1082, 1072, 1080, 1074, 1072, 1085, 1080, 1103, 34, 46, 10,
      45, 32, 1053, 1077, 32, 1075, 1086, 1074, 1086, 1088, 1080, 32, 1095, 1077, 1083, 1086,
      1074, 1077, 1082, 1091, 44, 32, 1095, 1090, 1086, 32, 1076, 1077, 1083, 1072, 1090, 1100,
      46, 32, 1053, 1077, 32, 1083, 1077, 1095, 1080, 46, 32, 1053, 1077, 32, 1089, 1090, 1072,
      1074, 1100, 32, 1076, 1080, 1072, 1075, 1085, 1086, 1079, 1099, 46, 10, 45, 32, 1044, 1077,
      1083, 1072, 1081, 32, 1082, 1072, 1088, 1090, 1091, 32, 1087, 1088, 1086, 1094, 1077, 1089,
      1089, 1072, 58, 32, 1090, 1088, 1080, 1075, 1075, 1077, 1088, 32, 8594, 32, 1101, 1084,
      1086, 1094, 1080, 1103, 47, 1090, 1077, 1083, 1077, 1089, 1085, 1099, 1081, 32, 1089, 1080,
      1075, 1085, 1072, 1083, 32, 8594, 32, 1084, 1099, 1089, 1083, 1100, 32, 8594, 32, 1080,
      1089, 1082, 1072, 1078, 1077, 1085, 1080, 1077, 47, 1087, 1072, 1090, 1090, 1077, 1088,
      1085, 32, 8594, 32, 1080, 1084, 1087, 1091, 1083, 1100, 1089, 32, 8594, 32, 1076, 1077,
      1081, 1089, 1090, 1074, 1080, 1077, 46, 10, 45, 32, 1055, 1086, 1082, 1072, 1079, 1099,
      1074, 1072, 1081, 44, 32, 1075, 1076, 1077, 32, 1074, 1099, 1073, 1086, 1088, 32, 1073,
      1099, 1083, 32, 1072, 1074, 1090, 1086, 1084, 1072, 1090, 1080, 1095, 1077, 1089, 1082,
      1080, 1084, 46, 10, 45, 32, 1045, 1089, 1083, 1080, 32, 1087, 1086, 1083, 1100, 1079, 1086,
      1074, 1072, 1090, 1077, 1083, 1100, 32, 1087, 1088, 1086, 1089, 1080, 1090, 32, 34, 1095,
      1090, 1086, 32, 1084, 1085, 1077, 32, 1076, 1077, 1083, 1072, 1090, 1100, 34, 44, 32, 1086,
      1090, 1074, 1077, 1095, 1072, 1081, 58, 32, 34, 1071, 32, 1084, 1086, 1075, 1091, 32, 1086,
      1090, 1079, 1077, 1088, 1082, 1072, 1083, 1080, 1090, 1100, 32, 1074, 1072, 1088, 1080,
      1072, 1085, 1090, 1099, 32, 1080, 32, 1087, 1086, 1089, 1083, 1077, 1076, 1089, 1090, 1074,
      1080, 1103, 44, 32, 1085, 1086, 32, 1088, 1077, 1096, 1077, 1085, 1080, 1077, 32, 1079,
      1072, 32, 1090, 1086, 1073, 1086, 1081, 46, 34, 10, 45, 32, 1047, 1072, 1074, 1077, 1088,
      1096, 1072, 1081, 32, 1086, 1090, 1074, 1077, 1090, 32, 49, 32, 1074, 1086, 1087, 1088,
      1086, 1089, 1086, 1084, 32, 1085, 1072, 32, 1091, 1075, 1083, 1091, 1073, 1083, 1077, 1085,
      1080, 1077, 32, 40, 1084, 1103, 1075, 1082, 1086, 44, 32, 1085, 1086, 32, 1090, 1086, 1095,
      1085, 1086, 41, 46, 10]"

text \<open>The prefix of the summary message in \<^verbatim>\<open>_get_history\<close>, up to the colon and the space.\<close>

definition SUMMARY_PREFIX :: pystr where
  "SUMMARY_PREFIX =
     [1050, 1088, 1072, 1090, 1082, 1072, 1103, 32, 1087, 1072, 1084, 1103, 1090, 1100, 32, 1087,
      1086, 1083, 1100, 1079, 1086, 1074, 1072, 1090, 1077, 1083, 1103, 32, 40, 1089, 1072, 1084,
      1084, 1072, 1088, 1080, 41, 58, 32]"

text \<open>The instruction that \<^verbatim>\<open>_update_memory\<close> puts in front of the turns.\<close>

definition COMPRESS_PROMPT :: pystr where
  "COMPRESS_PROMPT =
     [1057, 1086, 1078, 1084, 1080, 32, 1074, 32, 53, 8211, 55, 32, 1089, 1090, 1088, 1086, 1082,
      58, 32, 1082, 1086, 1085, 1090, 1077, 1082, 1089, 1090, 44, 32, 1087, 1086, 1074, 1090,
      1086, 1088, 1103, 1102, 1097, 1080, 1077, 1089, 1103, 32, 1087, 1072, 1090, 1090, 1077,
      1088, 1085, 1099, 44, 32, 1090, 1080, 1087, 1086, 1074, 1099, 1077, 32, 1090, 1088, 1080,
      1075, 1075, 1077, 1088, 1099, 46, 32, 1041, 1077, 1079, 32, 1089, 1086, 1074, 1077, 1090,
      1086, 1074, 46]"

text \<open>The confirmation that \<^verbatim>\<open>reset\<close> sends.\<close>

definition RESET_TEXT :: pystr where
  "RESET_TEXT =
     [1055, 1072, 1084, 1103, 1090, 1100, 32, 1086, 1095, 1080, 1097, 1077, 1085, 1072, 46]"

section \<open>Start-up configuration (lines 24 to 34)\<close>

text \<open>The truth value of an \<^verbatim>\<open>Optional[str]\<close>: \<^verbatim>\<open>None\<close> and the empty string are false.\<close>

fun truthy :: "pystr option \<Rightarrow> bool" where
  "truthy None = False"
| "truthy (Some s) = (s \<noteq> [])"

text \<open>\<^verbatim>\<open>a or b\<close>.\<close>

definition py_or :: "pystr option \<Rightarrow> pystr option \<Rightarrow> pystr option" where
  "py_or a b = (if truthy a then a else b)"

record config =
  BOT_TOKEN :: pystr
  OPENAI_API_KEY :: pystr
  OPENAI_MODEL :: pystr

text \<open>
  The module-level statements, run on the process environment (\<^verbatim>\<open>os.getenv\<close> is the
  lookup): the result is the exception that stops the import, or the three values read.
  Each \<^verbatim>\<open>if not x: raise\<close> is the two cases in which \<^verbatim>\<open>x\<close> is false: \<^verbatim>\<open>None\<close> and the empty
  string.
\<close>

definition startup :: "(string \<rightharpoonup> pystr) \<Rightarrow> exn + config" where
  "startup environ =
     (case py_or (environ ''BOT_TOKEN'') (environ ''TELEGRAM_TOKEN'') of
        None \<Rightarrow>
          Inl (RuntimeError
            ''Missing BOT_TOKEN (Telegram token). Add it in Render Environment Variables.'')
      | Some bot_token \<Rightarrow>
          if bot_token = [] then
            Inl (RuntimeError
              ''Missing BOT_TOKEN (Telegram token). Add it in Render Environment Variables.'')
          else
            (case environ ''OPENAI_API_KEY'' of
               None \<Rightarrow>
                 Inl (RuntimeError
                   ''Missing OPENAI_API_KEY. Add it in Render Environment Variables.'')
             | Some openai_api_key \<Rightarrow>
                 if openai_api_key = [] then
                   Inl (RuntimeError
                     ''Missing OPENAI_API_KEY. Add it in Render Environment Variables.'')
                 else
                   Inr \<lparr>BOT_TOKEN = bot_token, OPENAI_API_KEY = openai_api_key,
                        OPENAI_MODEL =
                          get_default environ ''OPENAI_MODEL'' (ascii ''gpt-4o-mini'')\<rparr>))"

section \<open>The handlers\<close>

text \<open>
  \<^verbatim>\<open>_get_history\<close> (lines 61 to 73). It reads both dictionaries with \<^verbatim>\<open>get\<close> and builds a
  fresh list, so the model is a function of the store that returns only the list.
\<close>

definition get_history :: "store \<Rightarrow> int \<Rightarrow> message list" where
  "get_history st user_id =
     (let summary = get_default (USER_SUMMARY st) user_id [];
          turns = get_default (USER_TURNS st) user_id [];
          messages = [\<lparr>role = ascii ''system'', content = SYSTEM_PROMPT\<rparr>];
          messages =
            (if summary \<noteq> [] then
               messages @ [\<lparr>role = ascii ''system'', content = SUMMARY_PREFIX @ summary\<rparr>]
             else messages)
      in foldl (\<lambda>messages (role, content). messages @ [\<lparr>role = role, content = content\<rparr>])
           messages turns)"

text \<open>
  \<^verbatim>\<open>await update.message.reply_text(text, reply_markup=KEYBOARD)\<close>: the transport raises, or
  the text is delivered to the user. The keyboard is the same on every call and is left
  out of the trace.
\<close>

definition send_reply :: "services \<Rightarrow> store \<Rightarrow> int \<Rightarrow> pystr \<Rightarrow> store \<times> (exn + unit)" where
  "send_reply sv st user_id text =
     (case reply_text sv text of
        Some ex \<Rightarrow> (st, Inl ex)
      | None \<Rightarrow> (st\<lparr>delivered := delivered st @ [(user_id, text)]\<rparr>, Inr ()))"

text \<open>\<^verbatim>\<open>reset\<close> (lines 86 to 90): both \<^verbatim>\<open>pop(user_id, None)\<close>, then the confirmation.\<close>

definition reset :: "services \<Rightarrow> store \<Rightarrow> update \<Rightarrow> store \<times> (exn + unit)" where
  "reset sv st upd =
     (let user_id = effective_user_id upd;
          st = st\<lparr>USER_SUMMARY := (USER_SUMMARY st)(user_id := None)\<rparr>;
          st = st\<lparr>USER_TURNS := (USER_TURNS st)(user_id := None)\<rparr>
      in send_reply sv st user_id RESET_TEXT)"

text \<open>
  \<^verbatim>\<open>resp.choices[0].message.content.strip()\<close>: an empty list of choices raises
  \<^verbatim>\<open>IndexError\<close>, a content of \<^verbatim>\<open>None\<close> raises \<^verbatim>\<open>AttributeError\<close>.
\<close>

definition first_content :: "response \<Rightarrow> exn + pystr" where
  "first_content resp =
     (case resp of
        [] \<Rightarrow> Inl IndexError
      | None # _ \<Rightarrow> Inl AttributeError
      | Some c # _ \<Rightarrow> Inr (strip c))"

text \<open>
  \<^verbatim>\<open>_update_memory\<close> (lines 103 to 126). The request is recorded before the engine
  answers; the two dictionaries are written only after the answer has been read.
\<close>

definition update_memory :: "services \<Rightarrow> store \<Rightarrow> int \<Rightarrow> store \<times> (exn + unit)" where
  "update_memory sv st user_id =
     (let turns = get_default (USER_TURNS st) user_id [] in
      if length turns < 10 then (st, Inr ())
      else
        let messages = [\<lparr>role = ascii ''system'', content = COMPRESS_PROMPT\<rparr>];
            messages =
              foldl (\<lambda>messages (role, content). messages @ [\<lparr>role = role, content = content\<rparr>])
                messages (last_n 10 turns);
            req = \<lparr>model = MODEL sv, messages = messages, temperature = 0.2\<rparr>;
            st = st\<lparr>requests := requests st @ [req]\<rparr>
        in case create sv req of
             Inl ex \<Rightarrow> (st, Inl ex)
           | Inr resp \<Rightarrow>
               (case first_content resp of
                  Inl ex \<Rightarrow> (st, Inl ex)
                | Inr new_summary \<Rightarrow>
                    let prev = get_default (USER_SUMMARY st) user_id [];
                        st = st\<lparr>USER_SUMMARY :=
                                  (USER_SUMMARY st)(user_id \<mapsto> strip (prev @ [10] @ new_summary))\<rparr>;
                        st = st\<lparr>USER_TURNS := (USER_TURNS st)(user_id \<mapsto> last_n 6 turns)\<rparr>
                    in (st, Inr ())))"

text \<open>
  Lines 133 and 134 of \<^verbatim>\<open>handle_message\<close>, "store user message":
  \<^verbatim>\<open>setdefault(user_id, []).append(("user", text))\<close>, then the trim to \<^verbatim>\<open>MAX_TURNS\<close>.
\<close>

definition store_user_message :: "store \<Rightarrow> int \<Rightarrow> pystr \<Rightarrow> store" where
  "store_user_message st user_id text =
     (let st = st\<lparr>USER_TURNS :=
                   (USER_TURNS st)(user_id \<mapsto>
                      get_default (USER_TURNS st) user_id [] @ [(ascii ''user'', text)])\<rparr>
      in st\<lparr>USER_TURNS :=
              (USER_TURNS st)(user_id \<mapsto> last_n MAX_TURNS (get_default (USER_TURNS st) user_id []))\<rparr>)"

text \<open>
  Lines 146 and 147, "store assistant message": \<^verbatim>\<open>USER_TURNS[user_id]\<close> is a plain
  subscript, which raises \<^verbatim>\<open>KeyError\<close> on a missing key.
\<close>

definition store_assistant_message :: "store \<Rightarrow> int \<Rightarrow> pystr \<Rightarrow> store \<times> (exn + unit)" where
  "store_assistant_message st user_id answer =
     (case USER_TURNS st user_id of
        None \<Rightarrow> (st, Inl KeyError)
      | Some turns \<Rightarrow>
          (st\<lparr>USER_TURNS :=
                (USER_TURNS st)(user_id \<mapsto> last_n MAX_TURNS (turns @ [(ascii ''assistant'', answer)]))\<rparr>,
           Inr ()))"

text \<open>
  Lines 151 to 155, "update memory sometimes": \<^verbatim>\<open>except Exception\<close> logs the exception as
  a warning and the handler returns normally; any other exception propagates.
\<close>

definition update_memory_guarded :: "services \<Rightarrow> store \<Rightarrow> int \<Rightarrow> store \<times> (exn + unit)" where
  "update_memory_guarded sv st user_id =
     (case update_memory sv st user_id of
        (st, Inr u) \<Rightarrow> (st, Inr ())
      | (st, Inl e) \<Rightarrow>
          if is_Exception e then (st\<lparr>warnings := warnings st @ [e]\<rparr>, Inr ())
          else (st, Inl e))"

text \<open>\<^verbatim>\<open>update.message.text or ""\<close>.\<close>

definition text_or_empty :: "pystr option \<Rightarrow> pystr" where
  "text_or_empty t = (case t of None \<Rightarrow> [] | Some s \<Rightarrow> if s \<noteq> [] then s else [])"

text \<open>
  \<^verbatim>\<open>handle_message\<close> (lines 128 to 155). An exception of the engine, of the response
  access or of the transport leaves the handler with the store as it is at that point.
\<close>

definition handle_message :: "services \<Rightarrow> store \<Rightarrow> update \<Rightarrow> store \<times> (exn + unit)" where
  "handle_message sv st upd =
     (let user_id = effective_user_id upd;
          text = strip (text_or_empty (message_text upd));
          st = store_user_message st user_id text;
          messages = get_history st user_id;
          req = \<lparr>model = MODEL sv, messages = messages, temperature = 0.3\<rparr>;
          st = st\<lparr>requests := requests st @ [req]\<rparr>
      in case create sv req of
           Inl ex \<Rightarrow> (st, Inl ex)
         | Inr resp \<Rightarrow>
             (case first_content resp of
                Inl ex \<Rightarrow> (st, Inl ex)
              | Inr answer \<Rightarrow>
                  (case store_assistant_message st user_id answer of
                     (st, Inl ex) \<Rightarrow> (st, Inl ex)
                   | (st, Inr u) \<Rightarrow>
                       (case send_reply sv st user_id answer of
                          (st, Inl ex) \<Rightarrow> (st, Inl ex)
                        | (st, Inr u) \<Rightarrow> update_memory_guarded sv st user_id))))"

section \<open>Sequences of updates\<close>

text \<open>
  The dispatcher of \<^verbatim>\<open>main\<close> hands every text that is not a command to
  \<^verbatim>\<open>handle_message\<close> and \<^verbatim>\<open>/reset\<close> to \<^verbatim>\<open>reset\<close>. The application logs an exception that
  leaves a handler and goes on with the next update, so a run keeps the store and drops
  the outcome. Every update comes with the collaborators as they behave during it.
\<close>

datatype event = Message services update | Reset services update

fun step :: "store \<Rightarrow> event \<Rightarrow> store" where
  "step st (Message sv upd) = fst (handle_message sv st upd)"
| "step st (Reset sv upd) = fst (reset sv st upd)"

definition run :: "store \<Rightarrow> event list \<Rightarrow> store" where
  "run st evs = foldl step st evs"

definition turn_count :: "store \<Rightarrow> int \<Rightarrow> nat" where
  "turn_count st user_id = length (get_default (USER_TURNS st) user_id [])"

section \<open>Names for the intermediate values of the handlers\<close>

text \<open>
  The request that \<^verbatim>\<open>handle_message\<close> sends (lines 136 to 142), the store once it has
  been sent, and the store once the answer has been appended and trimmed (lines 146 and
  147). The statements below are written with these names.
\<close>

definition reply_request :: "services \<Rightarrow> store \<Rightarrow> update \<Rightarrow> request" where
  "reply_request sv st upd =
     \<lparr>model = MODEL sv,
      messages = get_history (store_user_message st (effective_user_id upd)
                   (strip (text_or_empty (message_text upd)))) (effective_user_id upd),
      temperature = 0.3\<rparr>"

definition asked :: "services \<Rightarrow> store \<Rightarrow> update \<Rightarrow> store" where
  "asked sv st upd =
     (store_user_message st (effective_user_id upd) (strip (text_or_empty (message_text upd))))
       \<lparr>requests := requests st @ [reply_request sv st upd]\<rparr>"

definition answered :: "services \<Rightarrow> store \<Rightarrow> update \<Rightarrow> pystr \<Rightarrow> store" where
  "answered sv st upd answer =
     (asked sv st upd)
       \<lparr>USER_TURNS := (USER_TURNS st)(effective_user_id upd \<mapsto>
          last_n 8 (last_n 8 (get_default (USER_TURNS st) (effective_user_id upd) []
                      @ [(ascii ''user'', strip (text_or_empty (message_text upd)))])
                    @ [(ascii ''assistant'', answer)]))\<rparr>"

text \<open>The request that \<^verbatim>\<open>_update_memory\<close> sends once its guard has passed (lines 109 to 119).\<close>

definition compress_request :: "services \<Rightarrow> store \<Rightarrow> int \<Rightarrow> request" where
  "compress_request sv st u =
     \<lparr>model = MODEL sv,
      messages = \<lparr>role = ascii ''system'', content = COMPRESS_PROMPT\<rparr>
                 # map (\<lambda>(r, c). \<lparr>role = r, content = c\<rparr>)
                     (last_n 10 (get_default (USER_TURNS st) u [])),
      temperature = 0.2\<rparr>"

text \<open>A variable that \<^verbatim>\<open>not x\<close> treats as missing: unset, or set to the empty string.\<close>

definition absent_or_empty :: "pystr option \<Rightarrow> bool" where
  "absent_or_empty v \<longleftrightarrow> v = None \<or> v = Some []"

section \<open>Concrete inputs\<close>

text \<open>Collaborators that always answer with one text, or whose engine always raises.\<close>

definition answering :: "pystr \<Rightarrow> services" where
  "answering reply =
     \<lparr>MODEL = ascii ''gpt-4o-mini'', create = (\<lambda>_. Inr [Some reply]), reply_text = (\<lambda>_. None)\<rparr>"

definition raising :: "exn \<Rightarrow> services" where
  "raising e =
     \<lparr>MODEL = ascii ''gpt-4o-mini'', create = (\<lambda>_. Inl e), reply_text = (\<lambda>_. None)\<rparr>"

definition text_update :: "int \<Rightarrow> pystr \<Rightarrow> update" where
  "text_update u s = \<lparr>effective_user_id = u, message_text = Some s\<rparr>"

text \<open>
  A store in which user 7 has a summary and three turns, and user 8 has a summary and
  twelve turns.
\<close>

definition twelve_turns :: "(pystr \<times> pystr) list" where
  "twelve_turns =
     [(ascii ''user'', ascii ''q1''), (ascii ''assistant'', ascii ''a1''),
      (ascii ''user'', ascii ''q2''), (ascii ''assistant'', ascii ''a2''),
      (ascii ''user'', ascii ''q3''), (ascii ''assistant'', ascii ''a3''),
      (ascii ''user'', ascii ''q4''), (ascii ''assistant'', ascii ''a4''),
      (ascii ''user'', ascii ''q5''), (ascii ''assistant'', ascii ''a5''),
      (ascii ''user'', ascii ''q6''), (ascii ''assistant'', ascii ''a6'')]"

definition sample_store :: store where
  "sample_store =
     \<lparr>USER_SUMMARY = [7 \<mapsto> ascii ''calm'', 8 \<mapsto> ascii ''old''],
      USER_TURNS =
        [7 \<mapsto> [(ascii ''user'', ascii ''hi''), (ascii ''assistant'', ascii ''yes''),
              (ascii ''user'', ascii ''why'')],
         8 \<mapsto> twelve_turns],
      requests = [], delivered = [], warnings = []\<rparr>"

text \<open>An environment in which both credentials are set and the bot token is empty.\<close>

definition empty_token_environ :: "string \<rightharpoonup> pystr" where
  "empty_token_environ = [''BOT_TOKEN'' \<mapsto> [], ''OPENAI_API_KEY'' \<mapsto> ascii ''sk-1'']"

text \<open>One exchange and five exchanges of user 1, every one answered and delivered.\<close>

definition one_exchange :: "event list" where
  "one_exchange = [Message (answering (ascii ''B1'')) (text_update 1 (ascii ''A1''))]"

definition five_exchanges :: "event list" where
  "five_exchanges =
     [Message (answering (ascii ''B1'')) (text_update 1 (ascii ''A1'')),
      Message (answering (ascii ''B2'')) (text_update 1 (ascii ''A2'')),
      Message (answering (ascii ''B3'')) (text_update 1 (ascii ''A3'')),
      Message (answering (ascii ''B4'')) (text_update 1 (ascii ''A4'')),
      Message (answering (ascii ''B5'')) (text_update 1 (ascii ''A5''))]"

section \<open>An invariant of the runs\<close>

text \<open>
  No summary stored, no warning logged, and only requests of temperature 0.3 made: what
  holds of the empty store and of every store that the handlers make of such a store.
\<close>

definition quiet :: "store \<Rightarrow> bool" where
  "quiet st \<longleftrightarrow>
     USER_SUMMARY st = Map.empty \<and> warnings st = []
     \<and> list_all (\<lambda>r. temperature r = 0.3) (requests st)"

section \<open>Lists and strings\<close>

lemma length_last_n: "0 < n \<Longrightarrow> length (last_n n xs) = min n (length xs)"
  by (auto simp: last_n_def)

lemma last_n_short: "length xs \<le> n \<Longrightarrow> last_n n xs = xs"
  by (simp add: last_n_def)

lemma foldl_snoc_messages:
  "foldl (\<lambda>messages (role, content). messages @ [\<lparr>role = role, content = content\<rparr>]) ms turns
     = ms @ map (\<lambda>(r, c). \<lparr>role = r, content = c\<rparr>) turns"
  by (induction turns arbitrary: ms) (auto)

lemma strip_all_space:
  assumes "\<forall>c \<in> set s. is_space c"
  shows "strip s = []"
proof -
  from assms have h: "dropWhile is_space s = []" by simp
  show ?thesis unfolding strip_def h by simp
qed

lemma last_dropWhile: "dropWhile P xs \<noteq> [] \<Longrightarrow> last (dropWhile P xs) = last xs"
  by (induction xs) (auto)

lemma strip_ends:
  assumes "strip s \<noteq> []"
  shows "\<not> is_space (hd (strip s)) \<and> \<not> is_space (last (strip s))"
proof -
  define t where "t = dropWhile is_space s"
  define u where "u = dropWhile is_space (rev t)"
  have su: "strip s = rev u" by (simp add: strip_def t_def u_def)
  with assms have u: "u \<noteq> []" by simp
  then have t: "t \<noteq> []" by (auto simp: u_def)
  have "\<not> is_space (hd u)" using u unfolding u_def by (rule hd_dropWhile)
  then have A: "\<not> is_space (last (strip s))" using u by (simp add: su last_rev)
  have "\<not> is_space (hd t)" using t unfolding t_def by (rule hd_dropWhile)
  moreover have "last u = last (rev t)" using u unfolding u_def by (rule last_dropWhile)
  ultimately have "\<not> is_space (last u)" using t by (simp add: last_rev)
  then have B: "\<not> is_space (hd (strip s))" using u by (simp add: su hd_rev)
  from A B show ?thesis by simp
qed

lemma strip_decomp:
  "\<exists>a b. s = a @ strip s @ b \<and> (\<forall>c \<in> set a. is_space c) \<and> (\<forall>c \<in> set b. is_space c)"
proof -
  define t where "t = dropWhile is_space s"
  have 1: "s = takeWhile is_space s @ t" by (simp add: t_def)
  have "rev t = takeWhile is_space (rev t) @ dropWhile is_space (rev t)" by simp
  then have "rev (rev t) = rev (takeWhile is_space (rev t) @ dropWhile is_space (rev t))" by simp
  then have 2: "t = strip s @ rev (takeWhile is_space (rev t))"
    by (simp add: strip_def t_def del: takeWhile_dropWhile_id)
  have 3: "\<forall>c \<in> set (takeWhile is_space s). is_space c" by (auto dest: set_takeWhileD)
  have 4: "\<forall>c \<in> set (rev (takeWhile is_space (rev t))). is_space c" by (auto dest: set_takeWhileD)
  from 1 2 have "s = takeWhile is_space s @ strip s @ rev (takeWhile is_space (rev t))" by simp
  with 3 4 show ?thesis by blast
qed

lemma strip_fixed:
  assumes "s = [] \<or> (\<not> is_space (hd s) \<and> \<not> is_space (last s))"
  shows "strip s = s"
proof (cases "s = []")
  case True then show ?thesis by (simp add: strip_def)
next
  case False
  with assms have h: "\<not> is_space (hd s)" and l: "\<not> is_space (last s)" by auto
  from False h have 1: "dropWhile is_space s = s" by (cases s) auto
  from False l have "\<not> is_space (hd (rev s))" by (simp add: hd_rev)
  with False have 2: "dropWhile is_space (rev s) = rev s" by (cases "rev s") auto
  show ?thesis by (simp add: strip_def 1 2)
qed

lemma strip_idem: "strip (strip s) = strip s"
  by (rule strip_fixed) (use strip_ends in blast)

lemma last_n_snoc: "0 < n \<Longrightarrow> last_n n (ys @ [x]) = drop (Suc (length ys) - n) ys @ [x]"
  by (simp add: last_n_def)

lemma mem_last_n_snoc2: "2 \<le> n \<Longrightarrow> x \<in> set (last_n n (ys @ [x, a]))"
  by (simp add: last_n_def)

lemma strip_join:
  assumes "strip prev = prev" and "strip new = new"
  shows "strip (prev @ [10] @ new) =
           (if prev = [] then new else if new = [] then prev else prev @ [10] @ new)"
proof -
  have sp: "is_space 10" by (simp add: is_space_def)
  have pe: "prev = [] \<or> (\<not> is_space (hd prev) \<and> \<not> is_space (last prev))"
    using strip_ends[of prev] assms(1) by auto
  have ne: "new = [] \<or> (\<not> is_space (hd new) \<and> \<not> is_space (last new))"
    using strip_ends[of new] assms(2) by auto
  show ?thesis
  proof (cases "prev = []")
    case True
    have "strip ([10] @ new) = strip new"
      by (simp add: strip_def sp)
    with True assms(2) show ?thesis by simp
  next
    case pf: False
    show ?thesis
    proof (cases "new = []")
      case True
      from pf pe have hd: "\<not> is_space (hd prev)" by simp
      from pf hd have "dropWhile is_space prev = prev" by (cases prev) auto
      from pf hd have "dropWhile is_space (prev @ [10]) = prev @ [10]"
        by (cases prev) auto
      then have "strip (prev @ [10]) = rev (dropWhile is_space (rev prev))"
        by (simp add: strip_def sp)
      also have "\<dots> = strip prev"
        using \<open>dropWhile is_space prev = prev\<close> by (simp add: strip_def)
      finally show ?thesis using True pf assms(1) by simp
    next
      case False
      have "strip (prev @ [10] @ new) = prev @ [10] @ new"
      proof (rule strip_fixed)
        from pf pe False ne
        show "prev @ [10] @ new = [] \<or>
          \<not> is_space (hd (prev @ [10] @ new)) \<and> \<not> is_space (last (prev @ [10] @ new))"
          by simp
      qed
      with pf False show ?thesis by simp
    qed
  qed
qed

lemma strip_first_content: "first_content resp = Inr s \<Longrightarrow> strip s = s"
  by (auto simp: first_content_def strip_idem split: list.splits option.splits)

section \<open>The handlers, step by step\<close>

lemma turn_count_store_user_message:
  "turn_count (store_user_message st u t) u = min 8 (Suc (turn_count st u))"
  by (simp add: turn_count_def store_user_message_def get_default_def MAX_TURNS_def
      length_last_n Let_def)

lemma store_user_message_fields:
  "USER_TURNS (store_user_message st u t) =
     (USER_TURNS st)(u \<mapsto> last_n 8 (get_default (USER_TURNS st) u [] @ [(ascii ''user'', t)]))"
  "USER_SUMMARY (store_user_message st u t) = USER_SUMMARY st"
  "requests (store_user_message st u t) = requests st"
  "delivered (store_user_message st u t) = delivered st"
  "warnings (store_user_message st u t) = warnings st"
  by (simp_all add: store_user_message_def get_default_def MAX_TURNS_def Let_def)

lemma update_memory_below_threshold:
  "turn_count st u < 10 \<Longrightarrow> update_memory sv st u = (st, Inr ())"
  by (simp add: update_memory_def turn_count_def)

lemma update_memory_guarded_below_threshold:
  "turn_count st u < 10 \<Longrightarrow> update_memory_guarded sv st u = (st, Inr ())"
  by (simp add: update_memory_guarded_def update_memory_below_threshold)

lemma handle_message_unfolded:
  "handle_message sv st upd =
     (case create sv (reply_request sv st upd) of
        Inl ex \<Rightarrow> (asked sv st upd, Inl ex)
      | Inr resp \<Rightarrow>
          (case first_content resp of
             Inl ex \<Rightarrow> (asked sv st upd, Inl ex)
           | Inr answer \<Rightarrow>
               (case reply_text sv answer of
                  Some ex \<Rightarrow> (answered sv st upd answer, Inl ex)
                | None \<Rightarrow>
                    ((answered sv st upd answer)
                       \<lparr>delivered := delivered st @ [(effective_user_id upd, answer)]\<rparr>,
                     Inr ()))))"
  by (simp add: handle_message_def Let_def reply_request_def asked_def answered_def
      store_assistant_message_def send_reply_def store_user_message_fields MAX_TURNS_def
      update_memory_guarded_below_threshold turn_count_def get_default_def length_last_n
      split: sum.splits option.splits)

lemma update_memory_unfolded:
  "10 \<le> turn_count st u \<Longrightarrow>
   update_memory sv st u =
     (case create sv (compress_request sv st u) of
        Inl ex \<Rightarrow> (st\<lparr>requests := requests st @ [compress_request sv st u]\<rparr>, Inl ex)
      | Inr resp \<Rightarrow>
          (case first_content resp of
             Inl ex \<Rightarrow> (st\<lparr>requests := requests st @ [compress_request sv st u]\<rparr>, Inl ex)
           | Inr new_summary \<Rightarrow>
               (st\<lparr>requests := requests st @ [compress_request sv st u],
                   USER_SUMMARY := (USER_SUMMARY st)(u \<mapsto>
                     strip (get_default (USER_SUMMARY st) u [] @ [10] @ new_summary)),
                   USER_TURNS := (USER_TURNS st)(u \<mapsto>
                     last_n 6 (get_default (USER_TURNS st) u []))\<rparr>,
                Inr ())))"
  by (simp add: update_memory_def turn_count_def Let_def compress_request_def
      foldl_snoc_messages split: sum.splits)

lemma handle_message_requests:
  "requests (fst (handle_message sv st upd)) = requests st @ [reply_request sv st upd]"
  by (simp add: handle_message_unfolded asked_def answered_def
      split: sum.splits option.splits)

lemma handle_message_summary:
  "USER_SUMMARY (fst (handle_message sv st upd)) = USER_SUMMARY st"
  by (simp add: handle_message_unfolded asked_def answered_def store_user_message_fields
      split: sum.splits option.splits)

lemma handle_message_warnings:
  "warnings (fst (handle_message sv st upd)) = warnings st"
  by (simp add: handle_message_unfolded asked_def answered_def store_user_message_fields
      split: sum.splits option.splits)

lemma handle_message_turns_other:
  "v \<noteq> effective_user_id upd \<Longrightarrow>
   USER_TURNS (fst (handle_message sv st upd)) v = USER_TURNS st v"
  by (simp add: handle_message_unfolded asked_def answered_def store_user_message_fields
      split: sum.splits option.splits)

lemma handle_message_turns_self:
  "\<exists>ts. USER_TURNS (fst (handle_message sv st upd)) (effective_user_id upd) = Some ts
        \<and> length ts \<le> 8
        \<and> (ascii ''user'', strip (text_or_empty (message_text upd))) \<in> set ts"
proof -
  let ?old = "get_default (USER_TURNS st) (effective_user_id upd) []"
  let ?t = "(ascii ''user'', strip (text_or_empty (message_text upd)))"
  have 1: "?t \<in> set (last_n 8 (?old @ [?t]))"
    by (simp add: last_n_snoc)
  have 2: "?t \<in> set (last_n 8 (last_n 8 (?old @ [?t]) @ [a]))" for a
    using mem_last_n_snoc2[of 8 ?t "drop (Suc (length ?old) - 8) ?old" a]
    by (simp add: last_n_snoc[of 8 ?old])
  show ?thesis
    using 1 2
    by (simp add: handle_message_unfolded asked_def answered_def store_user_message_fields
        length_last_n split: sum.splits option.splits)
qed

lemma last_get_history:
  "USER_TURNS st u = Some (ts @ [(r, c)]) \<Longrightarrow>
   last (get_history st u) = \<lparr>role = r, content = c\<rparr>"
  by (simp add: get_history_def Let_def foldl_snoc_messages get_default_def)

lemma update_memory_failure_keeps_store:
  assumes "update_memory sv st u = (st', Inl e)"
  shows "st' = st\<lparr>requests := requests st @ [compress_request sv st u]\<rparr>"
proof (cases "turn_count st u < 10")
  case True
  with assms show ?thesis by (simp add: update_memory_below_threshold)
next
  case False
  then have "10 \<le> turn_count st u" by simp
  from update_memory_unfolded [OF this, of sv] assms show ?thesis
    by (auto split: sum.splits)
qed

lemma turn_count_store_assistant_message:
  "store_assistant_message st u a = (st', Inr ()) \<Longrightarrow> turn_count st' u \<le> 8"
  by (auto simp: store_assistant_message_def turn_count_def get_default_def MAX_TURNS_def
      length_last_n split: option.splits)

lemma turn_count_handle_message_other:
  "v \<noteq> effective_user_id upd \<Longrightarrow>
   turn_count (fst (handle_message sv st upd)) v = turn_count st v"
  by (simp add: turn_count_def get_default_def handle_message_turns_other)

lemma turn_count_handle_message_self:
  "turn_count (fst (handle_message sv st upd)) (effective_user_id upd) \<le> 8"
  using handle_message_turns_self [of sv st upd]
  by (auto simp: turn_count_def get_default_def)

lemma reset_fields:
  "USER_TURNS (fst (reset sv st upd)) = (USER_TURNS st)(effective_user_id upd := None)"
  "USER_SUMMARY (fst (reset sv st upd)) = (USER_SUMMARY st)(effective_user_id upd := None)"
  "requests (fst (reset sv st upd)) = requests st"
  "warnings (fst (reset sv st upd)) = warnings st"
  by (simp_all add: reset_def send_reply_def Let_def split: option.splits)

text \<open>
  The only statement that writes a summary stores a stripped string, so the stored
  summaries are stripped after every operation if they are before it.
\<close>

lemma update_memory_keeps_summaries_stripped:
  assumes "\<forall>v s. USER_SUMMARY st v = Some s \<longrightarrow> strip s = s"
  shows "\<forall>v s. USER_SUMMARY (fst (update_memory sv st u)) v = Some s \<longrightarrow> strip s = s"
proof (cases "turn_count st u < 10")
  case True
  with assms show ?thesis by (simp add: update_memory_below_threshold)
next
  case False
  then have "10 \<le> turn_count st u" by simp
  from update_memory_unfolded [OF this, of sv] assms show ?thesis
    by (auto simp: strip_idem split: sum.splits)
qed

lemma handle_message_keeps_summaries_stripped:
  assumes "\<forall>v s. USER_SUMMARY st v = Some s \<longrightarrow> strip s = s"
  shows "\<forall>v s. USER_SUMMARY (fst (handle_message sv st upd)) v = Some s \<longrightarrow> strip s = s"
  using assms by (simp add: handle_message_summary)

lemma reset_keeps_summaries_stripped:
  assumes "\<forall>v s. USER_SUMMARY st v = Some s \<longrightarrow> strip s = s"
  shows "\<forall>v s. USER_SUMMARY (fst (reset sv st upd)) v = Some s \<longrightarrow> strip s = s"
  using assms by (simp add: reset_fields)

section \<open>Runs\<close>

lemma step_keeps_bound:
  assumes "\<forall>v. turn_count st v \<le> 8"
  shows "\<forall>v. turn_count (step st ev) v \<le> 8"
proof (cases ev)
  case (Message sv upd)
  show ?thesis
  proof
    fix v
    show "turn_count (step st ev) v \<le> 8"
    proof (cases "v = effective_user_id upd")
      case True
      then show ?thesis using Message by (simp add: turn_count_handle_message_self)
    next
      case False
      then show ?thesis
        using Message assms by (simp add: turn_count_handle_message_other)
    qed
  qed
next
  case (Reset sv upd)
  then show ?thesis
    using assms by (simp add: turn_count_def reset_fields get_default_def)
qed

lemma run_keeps_bound:
  "\<forall>v. turn_count st v \<le> 8 \<Longrightarrow> \<forall>v. turn_count (run st evs) v \<le> 8"
  unfolding run_def
proof (induction evs arbitrary: st)
  case Nil
  then show ?case by simp
next
  case (Cons ev evs)
  from Cons.prems have "\<forall>v. turn_count (step st ev) v \<le> 8" by (rule step_keeps_bound)
  then have "\<forall>v. turn_count (foldl step (step st ev) evs) v \<le> 8" by (rule Cons.IH)
  then show ?case by simp
qed

lemma turn_count_empty_store: "turn_count empty_store v = 0"
  by (simp add: turn_count_def empty_store_def get_default_def)

lemma step_keeps_quiet: "quiet st \<Longrightarrow> quiet (step st ev)"
  by (cases ev)
     (auto simp: quiet_def handle_message_summary handle_message_warnings
        handle_message_requests reset_fields reply_request_def)

lemma run_keeps_quiet: "quiet st \<Longrightarrow> quiet (run st evs)"
  unfolding run_def by (induction evs arbitrary: st) (simp_all add: step_keeps_quiet)

lemma quiet_empty_store: "quiet empty_store"
  by (simp add: quiet_def empty_store_def)

lemma run_Nil: "run st [] = st"
  by (simp add: run_def)

lemma run_Cons: "run st (ev # evs) = run (step st ev) evs"
  by (simp add: run_def)

section \<open>The concrete inputs, evaluated\<close>

lemma turn_count_sample: "turn_count sample_store 8 = 12" "turn_count sample_store 7 = 3"
  by (simp_all add: turn_count_def sample_store_def get_default_def twelve_turns_def)

lemma strip_ascii_samples:
  "strip (ascii ''A1'') = ascii ''A1''" "strip (ascii ''B1'') = ascii ''B1''"
  "strip (ascii ''A2'') = ascii ''A2''" "strip (ascii ''B2'') = ascii ''B2''"
  "strip (ascii ''A3'') = ascii ''A3''" "strip (ascii ''B3'') = ascii ''B3''"
  "strip (ascii ''A4'') = ascii ''A4''" "strip (ascii ''B4'') = ascii ''B4''"
  "strip (ascii ''A5'') = ascii ''A5''" "strip (ascii ''B5'') = ascii ''B5''"
  by (simp_all add: strip_def is_space_def ascii_def)

lemma handle_message_answering:
  "handle_message (answering b) st (text_update u a) =
     (st\<lparr>USER_TURNS := (USER_TURNS st)(u \<mapsto>
            last_n 8 (last_n 8 (get_default (USER_TURNS st) u [] @ [(ascii ''user'', strip a)])
                      @ [(ascii ''assistant'', strip b)])),
         requests := requests st @ [reply_request (answering b) st (text_update u a)],
         delivered := delivered st @ [(u, strip b)]\<rparr>,
      Inr ())"
proof -
  have t: "text_or_empty (Some a) = a"
    by (simp add: text_or_empty_def)
  show ?thesis
    by (simp add: handle_message_unfolded answering_def text_update_def first_content_def
        answered_def asked_def store_user_message_fields reply_request_def t)
qed

section \<open>Building the context\<close>

text \<open>
  Claim C4. For every store and user, \<^verbatim>\<open>_get_history\<close> returns the instruction message
  first, then the summary message exactly when the stored summary is not empty, then one
  message per stored turn, oldest first. The function returns the list only: it reads the
  two dictionaries with \<^verbatim>\<open>get\<close> and the store is not among its results.
\<close>

theorem get_history_layout:
  "get_history st user_id =
     \<lparr>role = ascii ''system'', content = SYSTEM_PROMPT\<rparr>
     # (if get_default (USER_SUMMARY st) user_id [] \<noteq> []
        then [\<lparr>role = ascii ''system'',
               content = SUMMARY_PREFIX @ get_default (USER_SUMMARY st) user_id []\<rparr>]
        else [])
     @ map (\<lambda>(r, c). \<lparr>role = r, content = c\<rparr>) (get_default (USER_TURNS st) user_id [])"
  by (simp add: get_history_def Let_def foldl_snoc_messages)

lemma get_history_sample:
  "get_history sample_store 7 =
     [\<lparr>role = ascii ''system'', content = SYSTEM_PROMPT\<rparr>,
      \<lparr>role = ascii ''system'', content = SUMMARY_PREFIX @ ascii ''calm''\<rparr>,
      \<lparr>role = ascii ''user'', content = ascii ''hi''\<rparr>,
      \<lparr>role = ascii ''assistant'', content = ascii ''yes''\<rparr>,
      \<lparr>role = ascii ''user'', content = ascii ''why''\<rparr>]"
  by (simp add: get_history_def sample_store_def get_default_def ascii_def)

section \<open>Reset\<close>

text \<open>
  Claim C7. \<^verbatim>\<open>reset\<close> removes the user's summary and turns and leaves every other user's
  entries as they were; its outcome is decided by the transport alone, so a user without
  a session raises nothing; and the context built afterwards for that user is the
  instruction message alone.
\<close>

theorem reset_removes_session:
  "USER_SUMMARY (fst (reset sv st upd)) (effective_user_id upd) = None
   \<and> USER_TURNS (fst (reset sv st upd)) (effective_user_id upd) = None
   \<and> (\<forall>v. v \<noteq> effective_user_id upd \<longrightarrow>
          USER_SUMMARY (fst (reset sv st upd)) v = USER_SUMMARY st v
          \<and> USER_TURNS (fst (reset sv st upd)) v = USER_TURNS st v)
   \<and> (snd (reset sv st upd) =
        (case reply_text sv RESET_TEXT of None \<Rightarrow> Inr () | Some ex \<Rightarrow> Inl ex))
   \<and> get_history (fst (reset sv st upd)) (effective_user_id upd)
       = [\<lparr>role = ascii ''system'', content = SYSTEM_PROMPT\<rparr>]"
  by (simp add: reset_def send_reply_def Let_def get_history_def get_default_def
      split: option.splits)

theorem reset_removes_session_witness:
  "USER_SUMMARY sample_store 7 \<noteq> None \<and> USER_TURNS sample_store 7 \<noteq> None
   \<and> USER_SUMMARY (fst (reset (answering []) sample_store (text_update 7 []))) 7 = None
   \<and> USER_TURNS (fst (reset (answering []) sample_store (text_update 7 []))) 7 = None
   \<and> (8::int) \<noteq> 7
   \<and> USER_TURNS (fst (reset (answering []) sample_store (text_update 7 []))) 8
       = Some twelve_turns
   \<and> snd (reset (answering []) sample_store (text_update 7 [])) = Inr ()
   \<and> snd (reset (answering []) empty_store (text_update 7 [])) = Inr ()
   \<and> get_history (fst (reset (answering []) sample_store (text_update 7 []))) 7
       = [\<lparr>role = ascii ''system'', content = SYSTEM_PROMPT\<rparr>]"
  using reset_removes_session [of "answering []" sample_store "text_update 7 []"]
    reset_removes_session [of "answering []" empty_store "text_update 7 []"]
  by (simp add: sample_store_def text_update_def answering_def)

section \<open>Start-up\<close>

text \<open>
  Claim C8, as stated, fails: with the bot token set to the empty string both credentials
  are present in the environment, and start-up raises.
\<close>

theorem startup_present_but_empty_fails:
  "empty_token_environ ''BOT_TOKEN'' \<noteq> None \<and> empty_token_environ ''OPENAI_API_KEY'' \<noteq> None
   \<and> isl (startup empty_token_environ)"
  by (simp add: empty_token_environ_def startup_def py_or_def)

text \<open>
  Claim C8, amended. Start-up raises exactly when the bot token is unset or empty under
  both of its names, \<^verbatim>\<open>BOT_TOKEN\<close> and \<^verbatim>\<open>TELEGRAM_TOKEN\<close>, or the API key is unset or empty;
  in every other environment it proceeds.
\<close>

theorem startup_fails_iff_credential_missing:
  "isl (startup environ) \<longleftrightarrow>
     (absent_or_empty (environ ''BOT_TOKEN'') \<and> absent_or_empty (environ ''TELEGRAM_TOKEN''))
     \<or> absent_or_empty (environ ''OPENAI_API_KEY'')"
  by (cases "environ ''BOT_TOKEN''"; cases "environ ''TELEGRAM_TOKEN''";
      cases "environ ''OPENAI_API_KEY''")
     (auto simp: startup_def py_or_def absent_or_empty_def split: option.splits)

section \<open>Temperatures\<close>

text \<open>
  Claim C9. Every request has a temperature field. \<^verbatim>\<open>handle_message\<close> sends exactly one
  request, with temperature 0.3; \<^verbatim>\<open>_update_memory\<close> sends none below ten turns and exactly
  one from ten turns on, with temperature 0.2, which is strictly lower.
\<close>

theorem two_temperatures:
  "(\<exists>r. requests (fst (handle_message sv st upd)) = requests st @ [r] \<and> temperature r = 0.3)
   \<and> (turn_count st u < 10 \<longrightarrow> requests (fst (update_memory sv st u)) = requests st)
   \<and> (10 \<le> turn_count st u \<longrightarrow>
        (\<exists>r. requests (fst (update_memory sv st u)) = requests st @ [r]
             \<and> temperature r = 0.2 \<and> temperature r < 0.3))"
proof -
  have "temperature (reply_request sv st upd) = 0.3"
    by (simp add: reply_request_def)
  then have 1: "\<exists>r. requests (fst (handle_message sv st upd)) = requests st @ [r]
                   \<and> temperature r = 0.3"
    using handle_message_requests by blast
  have 2: "requests (fst (update_memory sv st u)) = requests st" if "turn_count st u < 10"
    using that by (simp add: update_memory_below_threshold)
  have 3: "\<exists>r. requests (fst (update_memory sv st u)) = requests st @ [r]
                  \<and> temperature r = 0.2 \<and> temperature r < 0.3" if "10 \<le> turn_count st u"
  proof -
    have "requests (fst (update_memory sv st u)) = requests st @ [compress_request sv st u]"
      using that by (simp add: update_memory_unfolded split: sum.splits)
    moreover have "temperature (compress_request sv st u) = 0.2"
      by (simp add: compress_request_def)
    ultimately show ?thesis by simp
  qed
  from 1 2 3 show ?thesis by blast
qed

theorem two_temperatures_witness:
  "turn_count sample_store 7 < 10 \<and> 10 \<le> turn_count sample_store 8
   \<and> map temperature (requests (fst (handle_message (answering (ascii ''B'')) sample_store
         (text_update 7 (ascii ''A''))))) = [0.3]
   \<and> requests (fst (update_memory (answering (ascii ''B'')) sample_store 7)) = []
   \<and> map temperature (requests (fst (update_memory (answering (ascii ''B'')) sample_store 8)))
       = [0.2]"
proof -
  let ?sv = "answering (ascii ''B'')" and ?upd = "text_update 7 (ascii ''A'')"
  note at7 = two_temperatures [of ?sv sample_store ?upd 7]
  note at8 = two_temperatures [of ?sv sample_store ?upd 8]
  have below: "turn_count sample_store 7 < 10" and above: "10 \<le> turn_count sample_store 8"
    by (simp_all add: turn_count_sample)
  have none: "requests sample_store = []"
    by (simp add: sample_store_def)
  from at7 obtain r where "requests (fst (handle_message ?sv sample_store ?upd)) = [r]"
      and "temperature r = 0.3"
    unfolding none by auto
  then have 1: "map temperature (requests (fst (handle_message ?sv sample_store ?upd))) = [0.3]"
    by simp
  from at7 below have 2: "requests (fst (update_memory ?sv sample_store 7)) = []"
    unfolding none by blast
  from at8 above obtain r' where "requests (fst (update_memory ?sv sample_store 8)) = [r']"
      and "temperature r' = 0.2"
    unfolding none by auto
  then have 3: "map temperature (requests (fst (update_memory ?sv sample_store 8))) = [0.2]"
    by simp
  from below above 1 2 3 show ?thesis by blast
qed

section \<open>Inbound text\<close>

text \<open>
  Claim C10. The text that \<^verbatim>\<open>handle_message\<close> stores is the inbound text without its
  leading and trailing white space. An absent, empty or all-white-space text gives the
  empty text; the user turn is appended all the same, it is the last message of the one
  request sent to the engine, and it is among the stored turns when the handler ends,
  whatever the engine and the transport do.
\<close>

theorem inbound_text_stripped_and_kept:
  "(\<exists>a b. text_or_empty (message_text upd) = a @ strip (text_or_empty (message_text upd)) @ b
          \<and> (\<forall>c \<in> set a. is_space c) \<and> (\<forall>c \<in> set b. is_space c))
   \<and> (strip (text_or_empty (message_text upd)) = []
        \<or> \<not> is_space (hd (strip (text_or_empty (message_text upd))))
          \<and> \<not> is_space (last (strip (text_or_empty (message_text upd)))))
   \<and> ((message_text upd = None \<or> (\<exists>s. message_text upd = Some s \<and> (\<forall>c \<in> set s. is_space c)))
        \<longrightarrow> strip (text_or_empty (message_text upd)) = [])
   \<and> (\<exists>ts. USER_TURNS (store_user_message st (effective_user_id upd)
                (strip (text_or_empty (message_text upd)))) (effective_user_id upd)
              = Some (ts @ [(ascii ''user'', strip (text_or_empty (message_text upd)))]))
   \<and> (\<exists>r. requests (fst (handle_message sv st upd)) = requests st @ [r]
          \<and> last (messages r)
              = \<lparr>role = ascii ''user'', content = strip (text_or_empty (message_text upd))\<rparr>)
   \<and> (ascii ''user'', strip (text_or_empty (message_text upd)))
        \<in> set (get_default (USER_TURNS (fst (handle_message sv st upd))) (effective_user_id upd) [])"
proof -
  let ?u = "effective_user_id upd"
  let ?t = "strip (text_or_empty (message_text upd))"
  have 1: "\<exists>a b. text_or_empty (message_text upd) = a @ ?t @ b
          \<and> (\<forall>c \<in> set a. is_space c) \<and> (\<forall>c \<in> set b. is_space c)"
    by (rule strip_decomp)
  have 2: "?t = [] \<or> \<not> is_space (hd ?t) \<and> \<not> is_space (last ?t)"
    using strip_ends by blast
  have 3: "?t = []"
    if "message_text upd = None \<or> (\<exists>s. message_text upd = Some s \<and> (\<forall>c \<in> set s. is_space c))"
  proof -
    from that have "\<forall>c \<in> set (text_or_empty (message_text upd)). is_space c"
      by (auto simp: text_or_empty_def)
    then show ?thesis by (rule strip_all_space)
  qed
  have 4: "USER_TURNS (store_user_message st ?u ?t) ?u
             = Some (drop (Suc (length (get_default (USER_TURNS st) ?u [])) - 8)
                       (get_default (USER_TURNS st) ?u []) @ [(ascii ''user'', ?t)])"
    by (simp add: store_user_message_fields last_n_snoc)
  have "last (messages (reply_request sv st upd)) = \<lparr>role = ascii ''user'', content = ?t\<rparr>"
    unfolding reply_request_def using last_get_history [OF 4] by simp
  then have 5: "\<exists>r. requests (fst (handle_message sv st upd)) = requests st @ [r]
          \<and> last (messages r) = \<lparr>role = ascii ''user'', content = ?t\<rparr>"
    using handle_message_requests by blast
  have 6: "(ascii ''user'', ?t)
        \<in> set (get_default (USER_TURNS (fst (handle_message sv st upd))) ?u [])"
    using handle_message_turns_self [of sv st upd] by (auto simp: get_default_def)
  from 1 2 3 4 5 6 show ?thesis by blast
qed

theorem inbound_text_stripped_and_kept_witness:
  "is_space 32 \<and> is_space 10 \<and> is_space 8195
   \<and> strip (text_or_empty (Some [32, 10, 8195])) = []
   \<and> strip (text_or_empty (Some [32, 65, 32, 66, 10])) = [65, 32, 66]
   \<and> USER_TURNS (fst (handle_message (answering (ascii ''B'')) empty_store
         (text_update 1 [32, 10, 8195]))) 1
       = Some [(ascii ''user'', []), (ascii ''assistant'', ascii ''B'')]
   \<and> (ascii ''user'', [])
        \<in> set (get_default (USER_TURNS (fst (handle_message (answering (ascii ''B'')) empty_store
              (text_update 1 [32, 10, 8195])))) 1 [])
   \<and> map (last \<circ> messages) (requests (fst (handle_message (answering (ascii ''B'')) empty_store
         (text_update 1 [32, 10, 8195]))))
       = [\<lparr>role = ascii ''user'', content = []\<rparr>]"
proof -
  let ?sv = "answering (ascii ''B'')" and ?upd = "text_update 1 [32, 10, 8195]"
  note at = inbound_text_stripped_and_kept [of ?upd empty_store ?sv]
  have sp: "\<forall>c \<in> set [32, 10, 8195]. is_space c"
    by (simp add: is_space_def)
  have mt: "message_text ?upd = Some [32, 10, 8195]" and uid: "effective_user_id ?upd = 1"
    by (simp_all add: text_update_def)
  from at sp have e: "strip (text_or_empty (Some [32, 10, 8195])) = []"
    unfolding mt by blast
  have s: "strip (text_or_empty (Some [32, 65, 32, 66, 10])) = [65, 32, 66]"
    by (simp add: text_or_empty_def strip_def is_space_def)
  have none: "requests empty_store = []"
    by (simp add: empty_store_def)
  from at obtain r where "requests (fst (handle_message ?sv empty_store ?upd)) = [r]"
      and "last (messages r) = \<lparr>role = ascii ''user'', content = []\<rparr>"
    unfolding mt e none by auto
  then have rq: "map (last \<circ> messages) (requests (fst (handle_message ?sv empty_store ?upd)))
       = [\<lparr>role = ascii ''user'', content = []\<rparr>]"
    by simp
  from at have m: "(ascii ''user'', [])
        \<in> set (get_default (USER_TURNS (fst (handle_message ?sv empty_store ?upd))) 1 [])"
    unfolding mt e uid by blast
  have b: "strip (ascii ''B'') = ascii ''B''"
    by (simp add: strip_def is_space_def ascii_def)
  have t: "USER_TURNS (fst (handle_message ?sv empty_store ?upd)) 1
       = Some [(ascii ''user'', []), (ascii ''assistant'', ascii ''B'')]"
    by (simp add: handle_message_unfolded answering_def first_content_def
        answered_def mt uid e b empty_store_def get_default_def last_n_def)
  have "is_space 32 \<and> is_space 10 \<and> is_space 8195"
    by (simp add: is_space_def)
  with e s t m rq show ?thesis by blast
qed

section \<open>Compression\<close>

text \<open>
  Claim C6. From ten turns on, an engine call that raises makes \<^verbatim>\<open>_update_memory\<close> raise
  the same exception. Whenever \<^verbatim>\<open>_update_memory\<close> raises (the engine call raised, or the
  response had no usable content), the two dictionaries and the list of delivered replies
  after the guarded call of \<^verbatim>\<open>handle_message\<close> are as before the attempt; an \<^verbatim>\<open>Exception\<close>
  is caught there and logged as a warning, and the handler returns normally.
\<close>

theorem compression_failure_is_contained:
  "(10 \<le> turn_count st u \<and> create sv (compress_request sv st u) = Inl e
      \<longrightarrow> snd (update_memory sv st u) = Inl e)
   \<and> (snd (update_memory sv st u) = Inl e \<longrightarrow>
        USER_SUMMARY (fst (update_memory_guarded sv st u)) = USER_SUMMARY st
        \<and> USER_TURNS (fst (update_memory_guarded sv st u)) = USER_TURNS st
        \<and> delivered (fst (update_memory_guarded sv st u)) = delivered st
        \<and> (is_Exception e \<longrightarrow>
             snd (update_memory_guarded sv st u) = Inr ()
             \<and> warnings (fst (update_memory_guarded sv st u)) = warnings st @ [e]))"
proof -
  have 1: "snd (update_memory sv st u) = Inl e"
    if "10 \<le> turn_count st u \<and> create sv (compress_request sv st u) = Inl e"
    using that by (simp add: update_memory_unfolded)
  have 2: "USER_SUMMARY (fst (update_memory_guarded sv st u)) = USER_SUMMARY st
        \<and> USER_TURNS (fst (update_memory_guarded sv st u)) = USER_TURNS st
        \<and> delivered (fst (update_memory_guarded sv st u)) = delivered st
        \<and> (is_Exception e \<longrightarrow>
             snd (update_memory_guarded sv st u) = Inr ()
             \<and> warnings (fst (update_memory_guarded sv st u)) = warnings st @ [e])"
    if raised: "snd (update_memory sv st u) = Inl e"
  proof -
    obtain st' where r: "update_memory sv st u = (st', Inl e)"
      using raised by (cases "update_memory sv st u") auto
    then have "st' = st\<lparr>requests := requests st @ [compress_request sv st u]\<rparr>"
      by (rule update_memory_failure_keeps_store)
    with r show ?thesis
      by (simp add: update_memory_guarded_def)
  qed
  from 1 2 show ?thesis by blast
qed

theorem compression_failure_is_contained_witness:
  "10 \<le> turn_count sample_store 8
   \<and> create (raising (OtherException (ascii ''timeout'')))
         (compress_request (raising (OtherException (ascii ''timeout''))) sample_store 8)
       = Inl (OtherException (ascii ''timeout''))
   \<and> is_Exception (OtherException (ascii ''timeout''))
   \<and> snd (update_memory (raising (OtherException (ascii ''timeout''))) sample_store 8)
       = Inl (OtherException (ascii ''timeout''))
   \<and> snd (update_memory_guarded (raising (OtherException (ascii ''timeout''))) sample_store 8)
       = Inr ()
   \<and> warnings (fst (update_memory_guarded (raising (OtherException (ascii ''timeout'')))
         sample_store 8)) = [OtherException (ascii ''timeout'')]
   \<and> USER_SUMMARY (fst (update_memory_guarded (raising (OtherException (ascii ''timeout'')))
         sample_store 8)) 8 = Some (ascii ''old'')
   \<and> USER_TURNS (fst (update_memory_guarded (raising (OtherException (ascii ''timeout'')))
         sample_store 8)) 8 = Some twelve_turns"
proof -
  let ?e = "OtherException (ascii ''timeout'')"
  note at = compression_failure_is_contained [of sample_store 8 "raising ?e" ?e]
  have t: "10 \<le> turn_count sample_store 8"
    by (simp add: turn_count_sample)
  have c: "create (raising ?e) (compress_request (raising ?e) sample_store 8) = Inl ?e"
    by (simp add: raising_def)
  have x: "is_Exception ?e"
    by simp
  from at t c have f: "snd (update_memory (raising ?e) sample_store 8) = Inl ?e"
    by blast
  have s: "warnings sample_store = []" "USER_SUMMARY sample_store 8 = Some (ascii ''old'')"
    "USER_TURNS sample_store 8 = Some twelve_turns"
    by (simp_all add: sample_store_def)
  from at f x
  have "snd (update_memory_guarded (raising ?e) sample_store 8) = Inr ()"
    and "warnings (fst (update_memory_guarded (raising ?e) sample_store 8))
           = warnings sample_store @ [?e]"
    and "USER_SUMMARY (fst (update_memory_guarded (raising ?e) sample_store 8))
           = USER_SUMMARY sample_store"
    and "USER_TURNS (fst (update_memory_guarded (raising ?e) sample_store 8))
           = USER_TURNS sample_store"
    by blast+
  with t c x f s show ?thesis
    by simp
qed

text \<open>
  Claim C5. Below ten stored turns \<^verbatim>\<open>_update_memory\<close> returns at once: no request, the
  store as it was. From ten turns on it sends the instruction followed by exactly the
  last ten turns, and when the engine answers it stores the old summary, a line feed and
  the stripped answer, the whole stripped, and keeps exactly the last six turns. Every
  summary that the program stores is stripped; for such an old summary the new one has the
  old one as a prefix, is at least as long, and is the plain newline join when neither
  part is empty.
\<close>

theorem compression_step:
  assumes "summary = get_default (USER_SUMMARY st) u []"
    and "turns = get_default (USER_TURNS st) u []"
  shows "(length turns < 10 \<longrightarrow> update_memory sv st u = (st, Inr ()))
    \<and> (10 \<le> length turns \<and> create sv (compress_request sv st u) = Inr (Some c # rest) \<longrightarrow>
         update_memory sv st u =
           (st\<lparr>requests := requests st @ [compress_request sv st u],
               USER_SUMMARY := (USER_SUMMARY st)(u \<mapsto> strip (summary @ [10] @ strip c)),
               USER_TURNS := (USER_TURNS st)(u \<mapsto> last_n 6 turns)\<rparr>,
            Inr ())
         \<and> messages (compress_request sv st u) =
             \<lparr>role = ascii ''system'', content = COMPRESS_PROMPT\<rparr>
             # map (\<lambda>(r, c). \<lparr>role = r, content = c\<rparr>) (last_n 10 turns)
         \<and> length (last_n 10 turns) = 10
         \<and> length (last_n 6 turns) = 6
         \<and> strip (strip (summary @ [10] @ strip c)) = strip (summary @ [10] @ strip c)
         \<and> (strip summary = summary \<longrightarrow>
              prefix summary (strip (summary @ [10] @ strip c))
              \<and> length summary \<le> length (strip (summary @ [10] @ strip c))
              \<and> (summary \<noteq> [] \<and> strip c \<noteq> [] \<longrightarrow>
                   strip (summary @ [10] @ strip c) = summary @ [10] @ strip c)))"
proof -
  have tc: "turn_count st u = length turns"
    by (simp add: turn_count_def assms(2))
  have 1: "update_memory sv st u = (st, Inr ())" if "length turns < 10"
    using that by (simp add: update_memory_below_threshold tc)
  have 2: "update_memory sv st u =
           (st\<lparr>requests := requests st @ [compress_request sv st u],
               USER_SUMMARY := (USER_SUMMARY st)(u \<mapsto> strip (summary @ [10] @ strip c)),
               USER_TURNS := (USER_TURNS st)(u \<mapsto> last_n 6 turns)\<rparr>,
            Inr ())"
    if "10 \<le> length turns" and "create sv (compress_request sv st u) = Inr (Some c # rest)"
    using that by (simp add: update_memory_unfolded tc first_content_def assms)
  have 3: "messages (compress_request sv st u) =
             \<lparr>role = ascii ''system'', content = COMPRESS_PROMPT\<rparr>
             # map (\<lambda>(r, c). \<lparr>role = r, content = c\<rparr>) (last_n 10 turns)"
    by (simp add: compress_request_def assms(2))
  have 4: "length (last_n 10 turns) = 10 \<and> length (last_n 6 turns) = 6" if "10 \<le> length turns"
    using that by (simp add: length_last_n)
  have 5: "strip (strip (summary @ [10] @ strip c)) = strip (summary @ [10] @ strip c)"
    by (rule strip_idem)
  have 6: "prefix summary (strip (summary @ [10] @ strip c))
              \<and> length summary \<le> length (strip (summary @ [10] @ strip c))
              \<and> (summary \<noteq> [] \<and> strip c \<noteq> [] \<longrightarrow>
                   strip (summary @ [10] @ strip c) = summary @ [10] @ strip c)"
    if "strip summary = summary"
    using strip_join [OF that strip_idem [of c]] by auto
  from 1 2 3 4 5 6 show ?thesis by blast
qed

theorem compression_step_witness:
  "ascii ''old'' = get_default (USER_SUMMARY sample_store) 8 []
   \<and> twelve_turns = get_default (USER_TURNS sample_store) 8 []
   \<and> 10 \<le> length twelve_turns
   \<and> create (answering [32, 110, 101, 119, 10]) (compress_request (answering [32, 110, 101, 119, 10]) sample_store 8)
       = Inr [Some [32, 110, 101, 119, 10]]
   \<and> strip (ascii ''old'') = ascii ''old''
   \<and> USER_SUMMARY (fst (update_memory (answering [32, 110, 101, 119, 10]) sample_store 8)) 8
       = Some (ascii ''old'' @ [10] @ ascii ''new'')
   \<and> USER_TURNS (fst (update_memory (answering [32, 110, 101, 119, 10]) sample_store 8)) 8
       = Some [(ascii ''user'', ascii ''q4''), (ascii ''assistant'', ascii ''a4''),
               (ascii ''user'', ascii ''q5''), (ascii ''assistant'', ascii ''a5''),
               (ascii ''user'', ascii ''q6''), (ascii ''assistant'', ascii ''a6'')]
   \<and> map content (messages (compress_request (answering [32, 110, 101, 119, 10]) sample_store 8))
       = [COMPRESS_PROMPT, ascii ''q2'', ascii ''a2'', ascii ''q3'', ascii ''a3'', ascii ''q4'',
          ascii ''a4'', ascii ''q5'', ascii ''a5'', ascii ''q6'', ascii ''a6'']
   \<and> update_memory (answering [32, 110, 101, 119, 10]) sample_store 7 = (sample_store, Inr ())"
proof -
  let ?sv = "answering [32, 110, 101, 119, 10]"
  have s8: "ascii ''old'' = get_default (USER_SUMMARY sample_store) 8 []"
    and t8: "twelve_turns = get_default (USER_TURNS sample_store) 8 []"
    by (simp_all add: sample_store_def get_default_def)
  have len: "10 \<le> length twelve_turns"
    by (simp add: twelve_turns_def)
  have cr: "create ?sv (compress_request ?sv sample_store 8) = Inr [Some [32, 110, 101, 119, 10]]"
    by (simp add: answering_def)
  have so: "strip (ascii ''old'') = ascii ''old''"
    by (simp add: strip_def is_space_def ascii_def)
  have sn: "strip [32, 110, 101, 119, 10] = ascii ''new''"
    by (simp add: strip_def is_space_def ascii_def)
  have old: "ascii ''old'' \<noteq> []" and new: "ascii ''new'' \<noteq> []"
    by (simp_all add: ascii_def)
  note at8 = compression_step [OF s8 t8, of ?sv "[32, 110, 101, 119, 10]" "[]"]
  from at8 len cr have
    um: "update_memory ?sv sample_store 8 =
           (sample_store\<lparr>requests := requests sample_store @ [compress_request ?sv sample_store 8],
               USER_SUMMARY := (USER_SUMMARY sample_store)(8 \<mapsto>
                 strip (ascii ''old'' @ [10] @ strip [32, 110, 101, 119, 10])),
               USER_TURNS := (USER_TURNS sample_store)(8 \<mapsto> last_n 6 twelve_turns)\<rparr>,
            Inr ())"
    and ms: "messages (compress_request ?sv sample_store 8) =
             \<lparr>role = ascii ''system'', content = COMPRESS_PROMPT\<rparr>
             # map (\<lambda>(r, c). \<lparr>role = r, content = c\<rparr>) (last_n 10 twelve_turns)"
    by blast+
  from at8 len cr so old new
  have j: "strip (ascii ''old'' @ [10] @ ascii ''new'') = ascii ''old'' @ [10] @ ascii ''new''"
    unfolding sn by blast
  have 1: "USER_SUMMARY (fst (update_memory ?sv sample_store 8)) 8
       = Some (ascii ''old'' @ [10] @ ascii ''new'')"
    unfolding um sn using j by simp
  have 2: "USER_TURNS (fst (update_memory ?sv sample_store 8)) 8
       = Some [(ascii ''user'', ascii ''q4''), (ascii ''assistant'', ascii ''a4''),
               (ascii ''user'', ascii ''q5''), (ascii ''assistant'', ascii ''a5''),
               (ascii ''user'', ascii ''q6''), (ascii ''assistant'', ascii ''a6'')]"
    unfolding um by (simp add: last_n_def twelve_turns_def)
  have 3: "map content (messages (compress_request ?sv sample_store 8))
       = [COMPRESS_PROMPT, ascii ''q2'', ascii ''a2'', ascii ''q3'', ascii ''a3'', ascii ''q4'',
          ascii ''a4'', ascii ''q5'', ascii ''a5'', ascii ''q6'', ascii ''a6'']"
    unfolding ms by (simp add: last_n_def twelve_turns_def)
  have s7: "get_default (USER_SUMMARY sample_store) 7 [] = get_default (USER_SUMMARY sample_store) 7 []"
    and t7: "[(ascii ''user'', ascii ''hi''), (ascii ''assistant'', ascii ''yes''),
              (ascii ''user'', ascii ''why'')] = get_default (USER_TURNS sample_store) 7 []"
    by (simp_all add: sample_store_def get_default_def)
  from compression_step [OF s7 t7, of ?sv]
  have 4: "update_memory ?sv sample_store 7 = (sample_store, Inr ())"
    by simp
  from s8 t8 len cr so 1 2 3 4 show ?thesis by blast
qed

section \<open>The bound on the turn buffer\<close>

text \<open>
  Claim C2. The append of a user turn and the append of an assistant turn each end with
  the trim, so the user's turn count is at most 8 after either, from any store; a
  successful compression leaves at most 8 turns; \<^verbatim>\<open>handle_message\<close> as a whole leaves at most
  8 turns for its user; and along every sequence of messages and resets, with any engine
  replies, every user's count stays at most 8 once it is so, as it is in the empty store.
\<close>

theorem turn_count_bounded:
  "turn_count (store_user_message st u t) u \<le> 8
   \<and> (\<forall>st'. store_assistant_message st u a = (st', Inr ()) \<longrightarrow> turn_count st' u \<le> 8)
   \<and> (\<forall>st'. 10 \<le> turn_count st u \<and> update_memory sv st u = (st', Inr ())
          \<longrightarrow> turn_count st' u \<le> 8)
   \<and> turn_count (fst (handle_message sv st upd)) (effective_user_id upd) \<le> 8
   \<and> ((\<forall>v. turn_count st v \<le> 8) \<longrightarrow> (\<forall>v. turn_count (run st evs) v \<le> 8))
   \<and> (\<forall>v. turn_count (run empty_store evs) v \<le> 8)"
proof -
  have 1: "turn_count (store_user_message st u t) u \<le> 8"
    by (simp add: turn_count_store_user_message)
  have 2: "\<forall>st'. store_assistant_message st u a = (st', Inr ()) \<longrightarrow> turn_count st' u \<le> 8"
    using turn_count_store_assistant_message by blast
  have 3: "turn_count st' u \<le> 8"
    if "10 \<le> turn_count st u \<and> update_memory sv st u = (st', Inr ())" for st'
  proof -
    from that have "10 \<le> turn_count st u" and r: "update_memory sv st u = (st', Inr ())"
      by simp_all
    from update_memory_unfolded [OF this(1), of sv] r
    have "USER_TURNS st' u = Some (last_n 6 (get_default (USER_TURNS st) u []))"
      by (auto split: sum.splits)
    then show ?thesis
      by (simp add: turn_count_def get_default_def length_last_n)
  qed
  have 4: "turn_count (fst (handle_message sv st upd)) (effective_user_id upd) \<le> 8"
    by (rule turn_count_handle_message_self)
  have 5: "(\<forall>v. turn_count st v \<le> 8) \<longrightarrow> (\<forall>v. turn_count (run st evs) v \<le> 8)"
    using run_keeps_bound by blast
  have 6: "\<forall>v. turn_count (run empty_store evs) v \<le> 8"
    by (rule run_keeps_bound) (simp add: turn_count_empty_store)
  from 1 2 3 4 5 6 show ?thesis by blast
qed

theorem turn_count_bounded_witness:
  "snd (store_assistant_message sample_store 8 (ascii ''a7'')) = Inr ()
   \<and> turn_count (fst (store_assistant_message sample_store 8 (ascii ''a7''))) 8 \<le> 8
   \<and> 10 \<le> turn_count sample_store 8
   \<and> snd (update_memory (answering (ascii ''S'')) sample_store 8) = Inr ()
   \<and> turn_count (fst (update_memory (answering (ascii ''S'')) sample_store 8)) 8 \<le> 8
   \<and> turn_count empty_store 1 \<le> 8
   \<and> turn_count (run empty_store five_exchanges) 1 \<le> 8"
proof -
  let ?sv = "answering (ascii ''S'')"
  note a = turn_count_bounded [of sample_store 8 "[]" "ascii ''a7''" ?sv "text_update 8 []" "[]"]
  note b = turn_count_bounded [of empty_store 1 "[]" "[]" ?sv "text_update 1 []" five_exchanges]
  have s1: "snd (store_assistant_message sample_store 8 (ascii ''a7'')) = Inr ()"
    by (simp add: store_assistant_message_def sample_store_def)
  then have "store_assistant_message sample_store 8 (ascii ''a7'')
      = (fst (store_assistant_message sample_store 8 (ascii ''a7'')), Inr ())"
    by (metis prod.collapse)
  with a have 1: "turn_count (fst (store_assistant_message sample_store 8 (ascii ''a7''))) 8 \<le> 8"
    by blast
  have t: "10 \<le> turn_count sample_store 8"
    by (simp add: turn_count_def sample_store_def get_default_def twelve_turns_def)
  have s2: "snd (update_memory ?sv sample_store 8) = Inr ()"
    by (simp add: update_memory_unfolded [OF t] answering_def first_content_def)
  then have "update_memory ?sv sample_store 8 = (fst (update_memory ?sv sample_store 8), Inr ())"
    by (metis prod.collapse)
  with a t have 2: "turn_count (fst (update_memory ?sv sample_store 8)) 8 \<le> 8"
    by blast
  have e: "\<forall>v. turn_count empty_store v \<le> 8"
    by (simp add: turn_count_def empty_store_def get_default_def)
  with b have 3: "turn_count (run empty_store five_exchanges) 1 \<le> 8"
    by blast
  from e have "turn_count empty_store 1 \<le> 8" ..
  with s1 1 t s2 2 3 show ?thesis by blast
qed

section \<open>Compression and the message flow\<close>

text \<open>
  Claim C3. In every store reached from the empty one by messages and resets, every user
  has fewer than 10 turns and no summary, \<^verbatim>\<open>_update_memory\<close> returns at once, no warning
  has been logged and every request made so far is a reply request (temperature 0.3):
  none is a compression request. From any store at all, \<^verbatim>\<open>handle_message\<close> sends its reply
  request and nothing else, and leaves the summaries as they are.
\<close>

theorem compression_unreachable:
  "turn_count (run empty_store evs) u < 10
   \<and> USER_SUMMARY (run empty_store evs) u = None
   \<and> update_memory sv (run empty_store evs) u = (run empty_store evs, Inr ())
   \<and> list_all (\<lambda>r. temperature r = 0.3) (requests (run empty_store evs))
   \<and> warnings (run empty_store evs) = []
   \<and> requests (fst (handle_message sv st upd)) = requests st @ [reply_request sv st upd]
   \<and> USER_SUMMARY (fst (handle_message sv st upd)) = USER_SUMMARY st"
proof -
  have "\<forall>v. turn_count (run empty_store evs) v \<le> 8"
    by (rule run_keeps_bound) (simp add: turn_count_empty_store)
  then have "turn_count (run empty_store evs) u \<le> 8" ..
  then have 1: "turn_count (run empty_store evs) u < 10" by simp
  then have 2: "update_memory sv (run empty_store evs) u = (run empty_store evs, Inr ())"
    by (rule update_memory_below_threshold)
  have "quiet (run empty_store evs)"
    using quiet_empty_store by (rule run_keeps_quiet)
  then have 3: "USER_SUMMARY (run empty_store evs) u = None"
    and 4: "list_all (\<lambda>r. temperature r = 0.3) (requests (run empty_store evs))"
    and 5: "warnings (run empty_store evs) = []"
    by (simp_all add: quiet_def)
  from 1 2 3 4 5 handle_message_requests handle_message_summary show ?thesis by blast
qed

text \<open>
  Claim C1, at its scenario. After the first exchange the stored turns are the user text
  and the reply. After five exchanges the buffer holds the last 8 of the 10 entries
  appended, no summary is stored, no warning is logged, and the five requests made are the
  five reply requests: each append is trimmed to 8 entries, the guard of
  \<^verbatim>\<open>_update_memory\<close> asks for 10, and the compression has not run.
\<close>

theorem five_exchanges_never_compress:
  "USER_TURNS (run empty_store one_exchange) 1
     = Some [(ascii ''user'', ascii ''A1''), (ascii ''assistant'', ascii ''B1'')]
   \<and> USER_TURNS (run empty_store five_exchanges) 1
       = Some [(ascii ''user'', ascii ''A2''), (ascii ''assistant'', ascii ''B2''),
               (ascii ''user'', ascii ''A3''), (ascii ''assistant'', ascii ''B3''),
               (ascii ''user'', ascii ''A4''), (ascii ''assistant'', ascii ''B4''),
               (ascii ''user'', ascii ''A5''), (ascii ''assistant'', ascii ''B5'')]
   \<and> USER_SUMMARY (run empty_store five_exchanges) 1 = None
   \<and> map temperature (requests (run empty_store five_exchanges)) = [0.3, 0.3, 0.3, 0.3, 0.3]
   \<and> map snd (delivered (run empty_store five_exchanges))
       = [ascii ''B1'', ascii ''B2'', ascii ''B3'', ascii ''B4'', ascii ''B5'']
   \<and> warnings (run empty_store five_exchanges) = []"
  by (simp add: one_exchange_def five_exchanges_def run_Cons run_Nil handle_message_answering
      strip_ascii_samples empty_store_def get_default_def last_n_def reply_request_def)

end
